theory Spec2Isabelle
  imports Complex_Main "HOL-Library.AList" "HOL-Library.Multiset"
begin

section \<open>Values, snapshots and backend results\<close>

text \<open>
  The module \<^verbatim>\<open>src/services/firebaseService.ts\<close> reads and writes a hierarchical
  key-value store. What \<^verbatim>\<open>snapshot.val()\<close> returns is untyped: a value of the store is
  null, a boolean, a number, a string, an array or an object with its properties in
  insertion order. Prices and fees, which the module passes to \<^verbatim>\<open>parseFloat\<close>, and
  records that it only copies (\<^verbatim>\<open>{ ...data }\<close>) are such values. The other fields the
  module reads are fields of HOL records, at the types the module uses them at, and
  optional where the code replaces a missing field by a default (\<^verbatim>\<open>x || d\<close>, \<^verbatim>\<open>a?.b\<close>,
  \<^verbatim>\<open>x === undefined\<close>) or where a property of the stored value overrides the one the
  module sets (\<^verbatim>\<open>{ key: ..., ...d.val() }\<close>).

  A finite JavaScript number is modelled by a rational: the properties proved are about
  which arithmetic expression is evaluated and about the order of timestamps, not about
  rounding. \<open>NaN\<close> and the two infinities are values of their own.
\<close>

datatype jsnum = Num rat | NaN | PosInf | NegInf

datatype jsval =
    JNull
  | JBool bool
  | JNum jsnum
  | JStr string
  | JArr "jsval list"
  | JObj "(string \<times> jsval) list"

type_synonym obj = "(string \<times> jsval) list"

text \<open>Negation and \<^verbatim>\<open>*\<close> on numbers.\<close>

fun js_neg :: "jsnum \<Rightarrow> jsnum" where
  "js_neg (Num a) = Num (- a)"
| "js_neg NaN = NaN"
| "js_neg PosInf = NegInf"
| "js_neg NegInf = PosInf"

definition js_inf :: "bool \<Rightarrow> jsnum" where
  "js_inf positive = (if positive then PosInf else NegInf)"

fun js_mul :: "jsnum \<Rightarrow> jsnum \<Rightarrow> jsnum" where
  "js_mul (Num a) (Num b) = Num (a * b)"
| "js_mul NaN y = NaN"
| "js_mul x NaN = NaN"
| "js_mul (Num a) PosInf = (if a = 0 then NaN else js_inf (0 < a))"
| "js_mul (Num a) NegInf = (if a = 0 then NaN else js_inf (a < 0))"
| "js_mul PosInf (Num b) = (if b = 0 then NaN else js_inf (0 < b))"
| "js_mul NegInf (Num b) = (if b = 0 then NaN else js_inf (b < 0))"
| "js_mul PosInf PosInf = PosInf"
| "js_mul PosInf NegInf = NegInf"
| "js_mul NegInf PosInf = NegInf"
| "js_mul NegInf NegInf = PosInf"

text \<open>\<^verbatim>\<open>x || d\<close> on a value that may be missing, and \<^verbatim>\<open>v.name\<close>.\<close>

fun truthy :: "jsval \<Rightarrow> bool" where
  "truthy JNull = False"
| "truthy (JBool b) = b"
| "truthy (JNum (Num a)) = (a \<noteq> 0)"
| "truthy (JNum NaN) = False"
| "truthy (JNum PosInf) = True"
| "truthy (JNum NegInf) = True"
| "truthy (JStr s) = (s \<noteq> [])"
| "truthy (JArr xs) = True"
| "truthy (JObj ps) = True"

definition js_or :: "jsval option \<Rightarrow> jsval \<Rightarrow> jsval" where
  "js_or x d = (case x of None \<Rightarrow> d | Some v \<Rightarrow> if truthy v then v else d)"

fun js_get :: "jsval \<Rightarrow> string \<Rightarrow> jsval option" where
  "js_get (JObj ps) name = map_of ps name"
| "js_get v name = None"

text \<open>\<^verbatim>\<open>{ ...a, ...b }\<close>: the properties of \<open>b\<close> are written onto \<open>a\<close> one by one.\<close>

definition spread :: "obj \<Rightarrow> obj \<Rightarrow> obj" where
  "spread a b = fold (\<lambda>(k, v) acc. AList.update k v acc) b a"

text \<open>\<^verbatim>\<open>x || d\<close> for an optional string and for an optional or plain number.\<close>

definition js_or_str :: "string option \<Rightarrow> string \<Rightarrow> string" where
  "js_or_str x d = (case x of None \<Rightarrow> d | Some s \<Rightarrow> if s = [] then d else s)"

definition js_or_num :: "rat option \<Rightarrow> rat \<Rightarrow> rat" where
  "js_or_num x d = (case x of None \<Rightarrow> d | Some n \<Rightarrow> if n = 0 then d else n)"

definition js_or_zero :: "rat \<Rightarrow> rat" where
  "js_or_zero n = (if n = 0 then 0 else n)"

text \<open>
  \<^verbatim>\<open>parseFloat(v)\<close> converts \<open>v\<close> to a string and reads the longest prefix that is a
  decimal literal, after leading white space; \<^verbatim>\<open>Number(v)\<close>, which \<^verbatim>\<open>*\<close> applies to
  its operands, reads the whole string and takes an empty one for 0. For a number both
  return the number. An array is converted to the strings of its elements separated by
  commas, an object to \<^verbatim>\<open>[object Object]\<close> (values of the store have no property named
  \<^verbatim>\<open>toString\<close> or \<^verbatim>\<open>valueOf\<close>). Strings are ASCII.
\<close>

definition is_space :: "char \<Rightarrow> bool" where
  "is_space c = (c \<in> set [CHR '' '', CHR 0x09, CHR 0x0A, CHR 0x0B, CHR 0x0C, CHR 0x0D])"

definition is_digit :: "char \<Rightarrow> bool" where
  "is_digit c = (48 \<le> (of_char c :: nat) \<and> (of_char c :: nat) \<le> 57)"

definition digit_of :: "char \<Rightarrow> nat option" where
  "digit_of c =
     (let n = (of_char c :: nat) in
      if 48 \<le> n \<and> n \<le> 57 then Some (n - 48)
      else if 97 \<le> n \<and> n \<le> 102 then Some (n - 87)
      else if 65 \<le> n \<and> n \<le> 70 then Some (n - 55)
      else None)"

definition digits_value :: "nat \<Rightarrow> string \<Rightarrow> nat" where
  "digits_value radix ds = foldl (\<lambda>a c. radix * a + (case digit_of c of Some v \<Rightarrow> v | None \<Rightarrow> 0)) 0 ds"

definition scan_exponent :: "string \<Rightarrow> int \<times> string" where
  "scan_exponent s =
     (case s of
        [] \<Rightarrow> (0, s)
      | c # r \<Rightarrow>
          if c = CHR ''e'' \<or> c = CHR ''E'' then
            (let (negative, r') =
                   (case r of
                      [] \<Rightarrow> (False, r)
                    | sg # t \<Rightarrow> if sg = CHR ''-'' then (True, t)
                               else if sg = CHR ''+'' then (False, t) else (False, r));
                 ds = takeWhile is_digit r'
             in if ds = [] then (0, s)
                else ((if negative then - int (digits_value 10 ds) else int (digits_value 10 ds)),
                      dropWhile is_digit r'))
          else (0, s))"

definition pow10 :: "int \<Rightarrow> rat" where
  "pow10 e = (if 0 \<le> e then 10 ^ nat e else 1 / 10 ^ nat (- e))"

definition scan_magnitude :: "string \<Rightarrow> (jsnum \<times> string) option" where
  "scan_magnitude s =
     (if take 8 s = ''Infinity'' then Some (PosInf, drop 8 s)
      else
        let ip = takeWhile is_digit s;
            r1 = dropWhile is_digit s;
            (fp, r2) =
              (case r1 of
                 [] \<Rightarrow> ([], r1)
               | c # r \<Rightarrow> if c = CHR ''.'' then (takeWhile is_digit r, dropWhile is_digit r)
                          else ([], r1))
        in if ip = [] \<and> fp = [] then None
           else
             let mantissa = of_nat (digits_value 10 ip) + of_nat (digits_value 10 fp) / 10 ^ length fp;
                 (e, r3) = scan_exponent r2
             in Some (Num (mantissa * pow10 e), r3))"

definition scan_decimal :: "string \<Rightarrow> (jsnum \<times> string) option" where
  "scan_decimal s =
     (case s of
        [] \<Rightarrow> None
      | c # r \<Rightarrow>
          if c = CHR ''-'' then map_option (\<lambda>(v, rest). (js_neg v, rest)) (scan_magnitude r)
          else if c = CHR ''+'' then scan_magnitude r
          else scan_magnitude s)"

definition parse_float_string :: "string \<Rightarrow> jsnum" where
  "parse_float_string s =
     (case scan_decimal (dropWhile is_space s) of None \<Rightarrow> NaN | Some (v, rest) \<Rightarrow> v)"

fun parseFloat :: "jsval \<Rightarrow> jsnum" where
  "parseFloat (JNum n) = n"
| "parseFloat (JStr s) = parse_float_string s"
| "parseFloat JNull = NaN"
| "parseFloat (JBool b) = NaN"
| "parseFloat (JObj ps) = NaN"
| "parseFloat (JArr []) = NaN"
| "parseFloat (JArr (x # xs)) = parseFloat x"

definition radix_literal :: "nat \<Rightarrow> string \<Rightarrow> jsnum" where
  "radix_literal radix ds =
     (if ds \<noteq> [] \<and> list_all (\<lambda>c. case digit_of c of Some v \<Rightarrow> v < radix | None \<Rightarrow> False) ds
      then Num (of_nat (digits_value radix ds)) else NaN)"

definition string_to_number :: "string \<Rightarrow> jsnum" where
  "string_to_number s =
     (let t = rev (dropWhile is_space (rev (dropWhile is_space s))) in
      if t = [] then Num 0
      else
        (case t of
           c0 # c1 # ds \<Rightarrow>
             if c0 = CHR ''0'' \<and> (c1 = CHR ''x'' \<or> c1 = CHR ''X'') then radix_literal 16 ds
             else if c0 = CHR ''0'' \<and> (c1 = CHR ''o'' \<or> c1 = CHR ''O'') then radix_literal 8 ds
             else if c0 = CHR ''0'' \<and> (c1 = CHR ''b'' \<or> c1 = CHR ''B'') then radix_literal 2 ds
             else (case scan_decimal t of Some (v, []) \<Rightarrow> v | _ \<Rightarrow> NaN)
         | _ \<Rightarrow> (case scan_decimal t of Some (v, []) \<Rightarrow> v | _ \<Rightarrow> NaN)))"

fun to_number :: "jsval \<Rightarrow> jsnum" where
  "to_number JNull = Num 0"
| "to_number (JBool b) = Num (if b then 1 else 0)"
| "to_number (JNum n) = n"
| "to_number (JStr s) = string_to_number s"
| "to_number (JObj ps) = NaN"
| "to_number (JArr []) = Num 0"
| "to_number (JArr [JNull]) = Num 0"
| "to_number (JArr [JBool b]) = NaN"
| "to_number (JArr [x]) = to_number x"
| "to_number (JArr (x # y # zs)) = NaN"

definition js_to_number :: "jsval option \<Rightarrow> jsnum" where
  "js_to_number x = (case x of None \<Rightarrow> NaN | Some v \<Rightarrow> to_number v)"

text \<open>
  A snapshot is the list of its children, key and value, in the order
  \<^verbatim>\<open>snapshot.forEach\<close> visits them. No callback of the module returns \<^verbatim>\<open>true\<close>, so
  \<^verbatim>\<open>forEach\<close> visits every child. A child's key is never null, so \<^verbatim>\<open>c.key || ''\<close> is
  the key.
\<close>

type_synonym 'a snapshot = "(string \<times> 'a) list"

definition forEach :: "'a snapshot \<Rightarrow> (string \<times> 'a \<Rightarrow> 's \<Rightarrow> 's) \<Rightarrow> 's \<Rightarrow> 's" where
  "forEach snap f s = fold f snap s"

datatype error = BackendError string

section \<open>User data\<close>

type_synonym database = "string \<rightharpoonup> jsval"

text \<open>\<^verbatim>\<open>set(ref(db, path), value)\<close>: the backend either rejects the write or stores the value.\<close>

definition db_set :: "error option \<Rightarrow> string \<Rightarrow> jsval \<Rightarrow> database \<Rightarrow> error + database" where
  "db_set failure path v db = (case failure of Some e \<Rightarrow> Inl e | None \<Rightarrow> Inr (db(path \<mapsto> v)))"

text \<open>\<open>now\<close> is the value of \<^verbatim>\<open>new Date().toISOString()\<close> at the call.\<close>

definition saveNewUserData :: "error option \<Rightarrow> string \<Rightarrow> string \<Rightarrow> obj \<Rightarrow> database \<Rightarrow> error + database" where
  "saveNewUserData failure now uid data db =
     db_set failure (''users/'' @ uid)
       (JObj (AList.update ''createdAt'' (JStr now) (spread [] data))) db"

section \<open>App settings\<close>

record stored_theme =
  raw_customerThemeColor :: "string option"

record stored_delivery =
  raw_deliveryFee :: "jsval option"
  raw_freeDeliveryThreshold :: "jsval option"

record stored_settings =
  raw_theme :: "stored_theme option"
  raw_delivery :: "stored_delivery option"

record theme_settings =
  customerThemeColor :: string

record delivery_settings =
  deliveryFee :: jsnum
  freeDeliveryThreshold :: jsnum

record app_settings =
  theme :: theme_settings
  delivery :: delivery_settings

definition default_settings :: app_settings where
  "default_settings =
     \<lparr>theme = \<lparr>customerThemeColor = ''#673AB7''\<rparr>,
      delivery = \<lparr>deliveryFee = Num 10, freeDeliveryThreshold = Num 0\<rparr>\<rparr>"

text \<open>
  The argument is the result of \<^verbatim>\<open>get(ref(db, 'settings'))\<close>: an error, or the stored
  value (\<open>None\<close> when nothing is stored, \<^verbatim>\<open>snapshot.val() || {}\<close>).
\<close>

definition fetchAppSettings :: "error + stored_settings option \<Rightarrow> error + app_settings" where
  "fetchAppSettings res =
     (case res of
        Inl e \<Rightarrow> Inr default_settings
      | Inr v \<Rightarrow>
          let settings = (case v of None \<Rightarrow> \<lparr>raw_theme = None, raw_delivery = None\<rparr> | Some s \<Rightarrow> s) in
          Inr \<lparr>theme =
                 \<lparr>customerThemeColor =
                    js_or_str (Option.bind (raw_theme settings) raw_customerThemeColor) ''#673AB7''\<rparr>,
               delivery =
                 \<lparr>deliveryFee =
                    parseFloat (js_or (Option.bind (raw_delivery settings) raw_deliveryFee) (JNum (Num 10))),
                  freeDeliveryThreshold =
                    parseFloat (js_or (Option.bind (raw_delivery settings) raw_freeDeliveryThreshold)
                                  (JNum (Num 0)))\<rparr>\<rparr>)"

section \<open>Categories and banners\<close>

text \<open>
  \<open>PLACEHOLDER_CATEGORIES\<close>, \<open>PLACEHOLDER_SLIDER_IMAGES\<close> and \<open>PLACEHOLDER_DISHES\<close> are
  constants of \<^verbatim>\<open>../constants\<close>; each function takes the constant it uses as its first
  argument.
\<close>

definition fetchCategories :: "obj list \<Rightarrow> error + obj snapshot \<Rightarrow> error + obj list" where
  "fetchCategories PLACEHOLDER_CATEGORIES res =
     (case res of
        Inl e \<Rightarrow> Inr PLACEHOLDER_CATEGORIES
      | Inr snapshot \<Rightarrow>
          let categoriesData =
                forEach snapshot (\<lambda>(key, val) acc. acc @ [spread [(''id'', JStr key)] val]) []
          in Inr (if length categoriesData > 0 then categoriesData else PLACEHOLDER_CATEGORIES))"

record stored_banner =
  raw_imageUrl :: "string option"
  raw_title :: "string option"

record slider_image =
  downloadURL :: string
  title :: "string option"

definition fetchBanners :: "slider_image list \<Rightarrow> error + stored_banner snapshot \<Rightarrow> error + slider_image list" where
  "fetchBanners PLACEHOLDER_SLIDER_IMAGES res =
     (case res of
        Inl e \<Rightarrow> Inr PLACEHOLDER_SLIDER_IMAGES
      | Inr snapshot \<Rightarrow>
          let sliderImages =
                forEach snapshot
                  (\<lambda>(key, banner) acc.
                     case raw_imageUrl banner of
                       None \<Rightarrow> acc
                     | Some url \<Rightarrow>
                         if url \<noteq> [] then acc @ [\<lparr>downloadURL = url, title = raw_title banner\<rparr>]
                         else acc)
                  []
          in Inr (if length sliderImages > 0 then sliderImages else PLACEHOLDER_SLIDER_IMAGES))"

section \<open>Dishes\<close>

text \<open>
  A price is stored as a scalar or as an object with the properties \<^verbatim>\<open>final\<close>,
  \<^verbatim>\<open>restaurantPrice\<close> and \<^verbatim>\<open>adminFee\<close>; the module reads it as any value of the
  store. \<open>raw_key\<close> is the \<^verbatim>\<open>key\<close> property of the stored record, if it has one.
\<close>

record stored_dish =
  raw_key :: "string option"
  raw_categoryId :: "string option"
  raw_pincode :: "string option"
  raw_discount :: "rat option"
  raw_unit :: "string option"
  raw_description :: "string option"
  raw_isInStock :: "bool option"
  raw_price :: "jsval option"
  raw_images :: "string list option"
  raw_dish_imageUrl :: "string option"
  raw_dish_rest :: obj

record dish =
  key :: string
  categoryId :: string
  pincode :: string
  discount :: rat
  unit :: string
  description :: string
  isInStock :: bool
  price :: jsval
  customerPrice :: jsnum
  images :: "string list"
  imageUrl :: "string option"
  dish_rest :: obj

text \<open>
  Lines 140 to 156: the record built from one child before the pincode test. In
  \<^verbatim>\<open>{ key: d.key || '', ...d.val() }\<close> a stored \<^verbatim>\<open>key\<close> replaces the child's key.
  A price is kept as it is when it is truthy and \<^verbatim>\<open>typeof\<close> gives \<^verbatim>\<open>'object'\<close>, that
  is, when it is an object or an array.
\<close>

definition dish_of :: "string \<Rightarrow> stored_dish \<Rightarrow> dish" where
  "dish_of k d =
     (let key' = (case raw_key d of None \<Rightarrow> k | Some stored \<Rightarrow> stored);
          categoryId' = js_or_str (raw_categoryId d) ''uncategorized'';
          pincode' = js_or_str (raw_pincode d) ''ALL'';
          discount' = js_or_num (raw_discount d) 0;
          unit' = js_or_str (raw_unit d) ''Unit N/A'';
          description' = js_or_str (raw_description d) ''No description available.'';
          isInStock' = (case raw_isInStock d of None \<Rightarrow> True | Some b \<Rightarrow> b);
          price' =
            (case raw_price d of
               Some (JObj ps) \<Rightarrow> JObj ps
             | Some (JArr xs) \<Rightarrow> JArr xs
             | _ \<Rightarrow>
                 JObj [(''final'', JNum (parseFloat (js_or (raw_price d) (JNum (Num 0))))),
                       (''restaurantPrice'', JNum (parseFloat (js_or (raw_price d) (JNum (Num 0))))),
                       (''adminFee'', JNum (Num 0))]);
          finalPriceBeforeDiscount = parseFloat (js_or (js_get price' ''final'') (JNum (Num 0)));
          customerPrice' = js_mul finalPriceBeforeDiscount (Num (1 - discount' / 100));
          images' =
            (case raw_images d of
               Some (i # is) \<Rightarrow> i # is
             | _ \<Rightarrow> [js_or_str (raw_dish_imageUrl d) ''https://picsum.photos/150/110''])
      in \<lparr>key = key', categoryId = categoryId', pincode = pincode', discount = discount',
          unit = unit', description = description', isInStock = isInStock', price = price',
          customerPrice = customerPrice', images = images', imageUrl = raw_dish_imageUrl d,
          dish_rest = raw_dish_rest d\<rparr>)"


text \<open>The catch branch: each placeholder with \<^verbatim>\<open>customerPrice\<close> and \<^verbatim>\<open>images\<close> rewritten.\<close>

definition placeholder_dish :: "dish \<Rightarrow> dish" where
  "placeholder_dish d =
     d\<lparr>customerPrice :=
         js_mul (js_to_number (js_get (price d) ''final'')) (Num (1 - js_or_zero (discount d) / 100)),
       images := (if length (images d) > 0 then images d
                  else [js_or_str (imageUrl d) ''https://picsum.photos/150/110''])\<rparr>"

definition fetchDishes :: "dish list \<Rightarrow> error + stored_dish snapshot \<Rightarrow> string option \<Rightarrow> error + dish list" where
  "fetchDishes PLACEHOLDER_DISHES res userPincode =
     (case res of
        Inl e \<Rightarrow> Inr (map placeholder_dish PLACEHOLDER_DISHES)
      | Inr snapshot \<Rightarrow>
          Inr (forEach snapshot
                 (\<lambda>(k, d) dishesData.
                    let dish = dish_of k d in
                    if (case userPincode of None \<Rightarrow> False | Some p \<Rightarrow> p \<noteq> [])
                       \<and> pincode dish \<noteq> ''ALL'' \<and> Some (pincode dish) \<noteq> userPincode
                    then dishesData
                    else dishesData @ [dish])
                 []))"

section \<open>Orders\<close>

record stored_partner =
  raw_name :: string
  raw_mobile :: string
  raw_profileImageUrl :: "string option"

record driver_details =
  driver_name :: string
  driver_mobile :: string
  driver_imageUrl :: string

text \<open>
  \<^verbatim>\<open>{ k: childSnap.key || '', ...val, customerStatus }\<close> adds two fields to a stored
  order. \<open>raw_k\<close> is the \<^verbatim>\<open>k\<close> property of the stored order, if it has one: it replaces
  the child's key. A stored \<^verbatim>\<open>customerStatus\<close> is replaced by the derived one.
\<close>

record stored_order =
  userId :: string
  status :: string
  dboyId :: "string option"
  timestamp :: rat
  driverDetails :: "driver_details option"
  raw_k :: "string option"
  order_rest :: obj

record order = stored_order +
  k :: string
  customerStatus :: string

text \<open>
  The three local variables of one notification. \<open>dpPromises\<close> holds, for each promise
  pushed, the driver id its \<^verbatim>\<open>get\<close> was issued for, in the order of the calls.
\<close>

record batch =
  userOrders :: "order list"
  dpPromises :: "string list"
  dpCache :: "string \<rightharpoonup> driver_details"

text \<open>
  The callback of \<^verbatim>\<open>snapshot.forEach\<close> (lines 239 to 266), \<open>order_of\<close> being its
  lines 242 and 243. \<open>CUSTOMER_STATUS_MAP\<close> is a constant of \<^verbatim>\<open>../constants\<close>, a table
  from status codes to customer statuses, read by its own entries.
  \<^verbatim>\<open>forEach\<close> is synchronous and the callbacks given to \<^verbatim>\<open>.then\<close> and \<^verbatim>\<open>.catch\<close> run
  only after the current job has finished, so no assignment to \<^verbatim>\<open>dpCache\<close> happens
  while the children are visited: the callback reads \<open>dpCache\<close> and never writes it.
\<close>

definition order_of :: "(string \<rightharpoonup> string) \<Rightarrow> string \<Rightarrow> stored_order \<Rightarrow> order" where
  "order_of CUSTOMER_STATUS_MAP childKey val =
     (let customerStatus' = js_or_str (CUSTOMER_STATUS_MAP (status val)) ''Processing''
      in \<lparr>userId = userId val, status = status val, dboyId = dboyId val,
          timestamp = timestamp val, driverDetails = driverDetails val, raw_k = raw_k val,
          order_rest = order_rest val,
          k = (case raw_k val of None \<Rightarrow> childKey | Some stored \<Rightarrow> stored),
          customerStatus = customerStatus'\<rparr>)"

definition on_child :: "(string \<rightharpoonup> string) \<Rightarrow> string \<Rightarrow> string \<times> stored_order \<Rightarrow> batch \<Rightarrow> batch" where
  "on_child CUSTOMER_STATUS_MAP uid = (\<lambda>(childKey, val) st.
     if userId val = uid then
       let order = order_of CUSTOMER_STATUS_MAP childKey val;
           st' = (case dboyId order of
                    None \<Rightarrow> st
                  | Some d \<Rightarrow>
                      if customerStatus order = ''On Way'' \<and> d \<noteq> [] \<and> dpCache st d = None
                      then st\<lparr>dpPromises := dpPromises st @ [d]\<rparr>
                      else st)
       in st'\<lparr>userOrders := userOrders st' @ [order]\<rparr>
     else st)"

text \<open>
  Lines 235 to 266: the three variables start empty and \<^verbatim>\<open>forEach\<close> visits the
  children of the snapshot.
\<close>

definition visit_children :: "(string \<rightharpoonup> string) \<Rightarrow> string \<Rightarrow> stored_order snapshot \<Rightarrow> batch" where
  "visit_children CUSTOMER_STATUS_MAP uid snapshot =
     forEach snapshot (on_child CUSTOMER_STATUS_MAP uid)
       \<lparr>userOrders = [], dpPromises = [], dpCache = Map.empty\<rparr>"

text \<open>The paths of the \<^verbatim>\<open>get\<close> calls issued while the children are visited.\<close>

definition driver_lookups :: "(string \<rightharpoonup> string) \<Rightarrow> string \<Rightarrow> stored_order snapshot \<Rightarrow> string list" where
  "driver_lookups CUSTOMER_STATUS_MAP uid snapshot =
     map (\<lambda>d. ''delivery_partners/'' @ d) (dpPromises (visit_children CUSTOMER_STATUS_MAP uid snapshot))"

text \<open>
  What the \<^verbatim>\<open>.then\<close> or the \<^verbatim>\<open>.catch\<close> callback stores for one outcome of \<^verbatim>\<open>get\<close>:
  an error, no data, or the partner's record. \<open>SIMULATED_DRIVER\<close> is a constant of
  \<^verbatim>\<open>../constants\<close>.
\<close>

definition driver_of :: "driver_details \<Rightarrow> error + stored_partner option \<Rightarrow> driver_details" where
  "driver_of SIMULATED_DRIVER outcome =
     (case outcome of
        Inl e \<Rightarrow> SIMULATED_DRIVER
      | Inr None \<Rightarrow> SIMULATED_DRIVER
      | Inr (Some dpData) \<Rightarrow>
          \<lparr>driver_name = raw_name dpData, driver_mobile = raw_mobile dpData,
           driver_imageUrl =
             js_or_str (raw_profileImageUrl dpData)
               ''https://cdn-icons-png.flaticon.com/512/4140/4140037.png''\<rparr>)"

text \<open>
  \<^verbatim>\<open>await Promise.all(dpPromises)\<close>. Every promise ends in \<^verbatim>\<open>.catch\<close>, so none is
  rejected and the handler goes on when all have settled. The backend is given by \<open>dp_get\<close>, the outcome of
  the \<open>i\<close>-th call of the batch for its path, and by \<open>delay\<close>, the time the \<open>i\<close>-th call
  takes: the promises settle in the order of their delays (the earlier call first when
  two are equal), and each one writes \<open>dpCache\<close> when it settles.
\<close>

definition settle_order :: "(nat \<Rightarrow> nat) \<Rightarrow> nat \<Rightarrow> nat list" where
  "settle_order delay n = sort_key delay [0..<n]"

definition await_all ::
  "driver_details \<Rightarrow> (nat \<Rightarrow> string \<Rightarrow> error + stored_partner option) \<Rightarrow> (nat \<Rightarrow> nat) \<Rightarrow>
   string list \<Rightarrow> (string \<rightharpoonup> driver_details) \<Rightarrow> (string \<rightharpoonup> driver_details)" where
  "await_all SIMULATED_DRIVER dp_get delay ids cache =
     fold (\<lambda>i c. c(ids ! i \<mapsto> driver_of SIMULATED_DRIVER (dp_get i (''delivery_partners/'' @ ids ! i))))
       (settle_order delay (length ids)) cache"

text \<open>The function given to \<^verbatim>\<open>userOrders.map\<close> (lines 270 to 275).\<close>

definition with_driver :: "(string \<rightharpoonup> driver_details) \<Rightarrow> order \<Rightarrow> order" where
  "with_driver cache order =
     (case dboyId order of
        None \<Rightarrow> order
      | Some d \<Rightarrow>
          if customerStatus order = ''On Way'' \<and> d \<noteq> [] then order\<lparr>driverDetails := cache d\<rparr>
          else order)"

text \<open>
  \<^verbatim>\<open>Array.prototype.sort\<close> with a comparison function: \<open>a\<close> comes before \<open>b\<close> when
  \<open>cmp a b < 0\<close>, and elements that compare equal keep their order.
\<close>

fun insert_by :: "('a \<Rightarrow> 'a \<Rightarrow> rat) \<Rightarrow> 'a \<Rightarrow> 'a list \<Rightarrow> 'a list" where
  "insert_by cmp a [] = [a]"
| "insert_by cmp a (b # bs) = (if cmp a b \<le> 0 then a # b # bs else b # insert_by cmp a bs)"

definition js_sort :: "('a \<Rightarrow> 'a \<Rightarrow> rat) \<Rightarrow> 'a list \<Rightarrow> 'a list" where
  "js_sort cmp xs = foldr (insert_by cmp) xs []"

text \<open>
  The handler given to \<^verbatim>\<open>onValue\<close>: from one snapshot of \<^verbatim>\<open>orders\<close> to the list passed
  to \<^verbatim>\<open>callback\<close>.
\<close>

definition listenForUserOrders ::
  "(string \<rightharpoonup> string) \<Rightarrow> driver_details \<Rightarrow> (nat \<Rightarrow> string \<Rightarrow> error + stored_partner option) \<Rightarrow>
   (nat \<Rightarrow> nat) \<Rightarrow> string \<Rightarrow> stored_order snapshot \<Rightarrow> order list" where
  "listenForUserOrders CUSTOMER_STATUS_MAP SIMULATED_DRIVER dp_get delay uid snapshot =
     (let st = visit_children CUSTOMER_STATUS_MAP uid snapshot;
          cache = await_all SIMULATED_DRIVER dp_get delay (dpPromises st) (dpCache st);
          ordersWithDriverDetails = map (with_driver cache) (userOrders st)
      in js_sort (\<lambda>a b. timestamp b - timestamp a) ordersWithDriverDetails)"

section \<open>Concrete data\<close>

text \<open>
  The constants of \<^verbatim>\<open>../constants\<close> are not part of the sources. The following table
  and records are instances on which the functions are evaluated below: a table in which
  one status code is mapped to \<^verbatim>\<open>'On Way'\<close> and \<^verbatim>\<open>'delivered'\<close> has no entry, a
  simulated driver, three orders of user \<^verbatim>\<open>u1\<close>, five dishes and a banner.
\<close>

definition example_status_map :: "string \<rightharpoonup> string" where
  "example_status_map = map_of [(''placed'', ''Processing''), (''picked_up'', ''On Way'')]"

definition example_simulated_driver :: driver_details where
  "example_simulated_driver =
     \<lparr>driver_name = ''Simulated Driver'', driver_mobile = ''0000000000'',
      driver_imageUrl = ''https://example.org/driver.png''\<rparr>"

definition example_partner :: stored_partner where
  "example_partner = \<lparr>raw_name = ''Ravi'', raw_mobile = ''9876543210'', raw_profileImageUrl = None\<rparr>"

definition order_a :: stored_order where
  "order_a = \<lparr>userId = ''u1'', status = ''picked_up'', dboyId = Some ''d1'', timestamp = 1000,
              driverDetails = None, raw_k = None, order_rest = []\<rparr>"

definition order_b :: stored_order where
  "order_b = \<lparr>userId = ''u1'', status = ''picked_up'', dboyId = Some ''d1'', timestamp = 2000,
              driverDetails = None, raw_k = None, order_rest = []\<rparr>"

definition order_c :: stored_order where
  "order_c = \<lparr>userId = ''u1'', status = ''delivered'', dboyId = None, timestamp = 3000,
              driverDetails = None, raw_k = None, order_rest = []\<rparr>"

definition dish_all :: stored_dish where
  "dish_all = \<lparr>raw_key = None, raw_categoryId = Some ''c1'', raw_pincode = Some ''ALL'', raw_discount = Some 10,
               raw_unit = None, raw_description = None, raw_isInStock = None,
               raw_price = Some (JObj [(''final'', JNum (Num 200)), (''restaurantPrice'', JNum (Num 180)),
                                        (''adminFee'', JNum (Num 20))]),
               raw_images = None, raw_dish_imageUrl = None, raw_dish_rest = []\<rparr>"

definition dish_560001 :: stored_dish where
  "dish_560001 = \<lparr>raw_key = None, raw_categoryId = Some ''c1'', raw_pincode = Some ''560001'', raw_discount = None,
               raw_unit = None, raw_description = None, raw_isInStock = None,
               raw_price = Some (JNum (Num 50)), raw_images = None, raw_dish_imageUrl = None,
               raw_dish_rest = []\<rparr>"

definition dish_560002 :: stored_dish where
  "dish_560002 = \<lparr>raw_key = None, raw_categoryId = Some ''c1'', raw_pincode = Some ''560002'', raw_discount = None,
               raw_unit = None, raw_description = None, raw_isInStock = None,
               raw_price = Some (JStr ''80''), raw_images = None, raw_dish_imageUrl = None,
               raw_dish_rest = []\<rparr>"



definition banner_without_image :: stored_banner where
  "banner_without_image = \<lparr>raw_imageUrl = None, raw_title = Some ''Sale''\<rparr>"

section \<open>Objects\<close>

lemma update_fresh: "key' \<notin> fst ` set a \<Longrightarrow> AList.update key' v a = a @ [(key', v)]"
  by (induction a) auto

lemma spread_distinct: "distinct (map fst (a @ b)) \<Longrightarrow> spread a b = a @ b"
  unfolding spread_def
proof (induction b arbitrary: a)
  case Nil
  show ?case by simp
next
  case (Cons kv b)
  obtain key' v where kv: "kv = (key', v)" by (cases kv)
  from Cons.prems have fresh: "key' \<notin> fst ` set a" by (auto simp: kv)
  from Cons.prems have "distinct (map fst ((a @ [(key', v)]) @ b))" by (simp add: kv)
  from Cons.IH [OF this] show ?case by (simp add: kv update_fresh [OF fresh])
qed

section \<open>Saving a new user\<close>

text \<open>
  C10. When the write succeeds, the record stored at \<^verbatim>\<open>users/{uid}\<close> has
  \<^verbatim>\<open>createdAt\<close> equal to the timestamp taken by the function, whatever \<^verbatim>\<open>createdAt\<close>
  the caller's data held, and every other property has the value the caller supplied.
  The caller's data is an object, so its property names are distinct.
\<close>

theorem saveNewUserData_createdAt:
  assumes "distinct (map fst data)"
  shows "\<exists>rec. saveNewUserData None now uid data db = Inr (db(''users/'' @ uid \<mapsto> JObj rec))
           \<and> map_of rec ''createdAt'' = Some (JStr now)
           \<and> (\<forall>p. p \<noteq> ''createdAt'' \<longrightarrow> map_of rec p = map_of data p)"
proof -
  have "spread [] data = data" using assms by (simp add: spread_distinct)
  then have "saveNewUserData None now uid data db =
      Inr (db(''users/'' @ uid \<mapsto> JObj (AList.update ''createdAt'' (JStr now) data)))"
    by (simp add: saveNewUserData_def db_set_def)
  moreover have "map_of (AList.update ''createdAt'' (JStr now) data) ''createdAt'' = Some (JStr now)"
    by (simp add: update_conv')
  moreover have "\<forall>p. p \<noteq> ''createdAt'' \<longrightarrow>
      map_of (AList.update ''createdAt'' (JStr now) data) p = map_of data p"
    by (simp add: update_conv')
  ultimately show ?thesis by blast
qed

theorem saveNewUserData_createdAt_witness:
  "distinct (map fst [(''name'', JStr ''Asha''), (''createdAt'', JStr ''1999-01-01T00:00:00.000Z'')])
   \<and> (\<exists>rec. saveNewUserData None ''2024-05-01T10:00:00.000Z'' ''u1''
              [(''name'', JStr ''Asha''), (''createdAt'', JStr ''1999-01-01T00:00:00.000Z'')] Map.empty
            = Inr [''users/u1'' \<mapsto> JObj rec]
          \<and> map_of rec ''createdAt'' = Some (JStr ''2024-05-01T10:00:00.000Z'')
          \<and> map_of rec ''name'' = Some (JStr ''Asha''))"
proof -
  have d: "distinct (map fst [(''name'', JStr ''Asha''), (''createdAt'', JStr ''1999-01-01T00:00:00.000Z'')])"
    by simp
  from saveNewUserData_createdAt [OF d, of "''2024-05-01T10:00:00.000Z''" "''u1''" Map.empty]
  show ?thesis using d by auto
qed

section \<open>Catalog reads\<close>

lemma dishes_fold:
  "fold (\<lambda>(ck, d) dishesData.
           let dish = dish_of ck d in
           if (case userPincode of None \<Rightarrow> False | Some p \<Rightarrow> p \<noteq> [])
              \<and> pincode dish \<noteq> ''ALL'' \<and> Some (pincode dish) \<noteq> userPincode
           then dishesData else dishesData @ [dish]) snap acc
   = acc @ filter (\<lambda>dish. \<not> ((case userPincode of None \<Rightarrow> False | Some p \<Rightarrow> p \<noteq> [])
              \<and> pincode dish \<noteq> ''ALL'' \<and> Some (pincode dish) \<noteq> userPincode))
            (map (\<lambda>(ck, d). dish_of ck d) snap)"
  by (induction snap arbitrary: acc) (auto simp: Let_def)

lemma fetchDishes_read:
  "fetchDishes PD (Inr snap) userPincode =
     Inr (filter (\<lambda>dish. \<not> ((case userPincode of None \<Rightarrow> False | Some p \<Rightarrow> p \<noteq> [])
              \<and> pincode dish \<noteq> ''ALL'' \<and> Some (pincode dish) \<noteq> userPincode))
            (map (\<lambda>(ck, d). dish_of ck d) snap))"
  by (simp add: fetchDishes_def forEach_def dishes_fold)








text \<open>
  C9. With a null caller pincode a successful read returns the record built from every
  stored dish, whatever its pincode: no dish is left out.
\<close>

theorem fetchDishes_null_pincode:
  "fetchDishes PD (Inr snap) None = Inr (map (\<lambda>(ck, d). dish_of ck d) snap)"
  by (simp add: fetchDishes_read)

lemma pincode_dish_all: "pincode (dish_of ck dish_all) = ''ALL''"
  by (simp add: dish_of_def dish_all_def Let_def js_or_str_def)

lemma pincode_dish_560002: "pincode (dish_of ck dish_560002) = ''560002''"
  by (simp add: dish_of_def dish_560002_def Let_def js_or_str_def)

text \<open>
  C4, as stated, fails for the caller pincode \<^verbatim>\<open>''\<close>, which is not null: the test
  \<^verbatim>\<open>userPincode && ...\<close> treats the empty string as it treats null, and a dish whose
  pincode is \<^verbatim>\<open>560002\<close> is returned.
\<close>

theorem fetchDishes_empty_pincode_counterexample:
  "fetchDishes [] (Inr [(''k3'', dish_560002)]) (Some []) = Inr [dish_of ''k3'' dish_560002]
   \<and> pincode (dish_of ''k3'' dish_560002) = ''560002''
   \<and> pincode (dish_of ''k3'' dish_560002) \<noteq> []
   \<and> pincode (dish_of ''k3'' dish_560002) \<noteq> ''ALL''"
  by (simp add: fetchDishes_def forEach_def Let_def pincode_dish_560002)

lemma fetchDishes_empty_pincode: "fetchDishes PD res (Some []) = fetchDishes PD res None"
  by (cases res) (simp_all add: fetchDishes_def)

text \<open>
  C4, amended. For every caller pincode that is a non-empty string, a stored dish is in
  the result of a successful read exactly when its pincode (\<^verbatim>\<open>ALL\<close> when none is
  stored) is \<^verbatim>\<open>ALL\<close> or the caller's pincode. With the empty string as caller
  pincode \<^verbatim>\<open>fetchDishes\<close> returns what it returns for null: nothing is filtered.
\<close>

theorem fetchDishes_pincode_filter:
  assumes "p \<noteq> []" and "(ck, sd) \<in> set snap"
  shows "(\<exists>dishes. fetchDishes PD (Inr snap) (Some p) = Inr dishes \<and>
           (dish_of ck sd \<in> set dishes \<longleftrightarrow>
              pincode (dish_of ck sd) = ''ALL'' \<or> pincode (dish_of ck sd) = p))
         \<and> fetchDishes PD res (Some []) = fetchDishes PD res None"
  using assms by (auto simp: fetchDishes_read fetchDishes_empty_pincode)

theorem fetchDishes_pincode_filter_witness:
  "(\<exists>dishes. fetchDishes [] (Inr [(''k1'', dish_all), (''k3'', dish_560002)]) (Some ''560001'') = Inr dishes
      \<and> dish_of ''k1'' dish_all \<in> set dishes)
   \<and> (\<exists>dishes. fetchDishes [] (Inr [(''k1'', dish_all), (''k3'', dish_560002)]) (Some ''560001'') = Inr dishes
      \<and> dish_of ''k3'' dish_560002 \<notin> set dishes)
   \<and> fetchDishes [] (Inr [(''k1'', dish_all), (''k3'', dish_560002)]) (Some [])
       = fetchDishes [] (Inr [(''k1'', dish_all), (''k3'', dish_560002)]) None"
proof -
  have ne: "''560001'' \<noteq> []" by simp
  have m1: "(''k1'', dish_all) \<in> set [(''k1'', dish_all), (''k3'', dish_560002)]" by simp
  have m3: "(''k3'', dish_560002) \<in> set [(''k1'', dish_all), (''k3'', dish_560002)]" by simp
  from fetchDishes_pincode_filter [OF ne m1, of "[]" "Inr [(''k1'', dish_all), (''k3'', dish_560002)]"]
       fetchDishes_pincode_filter [OF ne m3, of "[]" "Inr [(''k1'', dish_all), (''k3'', dish_560002)]"]
  show ?thesis by (simp add: pincode_dish_all pincode_dish_560002)
qed

lemma banners_fold:
  "\<forall>(ck, b) \<in> set snap. raw_imageUrl b = None \<or> raw_imageUrl b = Some [] \<Longrightarrow>
   fold (\<lambda>(ck, banner) acc.
           case raw_imageUrl banner of
             None \<Rightarrow> acc
           | Some url \<Rightarrow>
               if url \<noteq> [] then acc @ [\<lparr>downloadURL = url, title = raw_title banner\<rparr>] else acc)
     snap acc = acc"
  by (induction snap arbitrary: acc) auto

text \<open>
  C6. When the backend read throws, each of the four catalog reads returns a value, not
  the error: the placeholder categories, the placeholder dishes (each with
  \<^verbatim>\<open>customerPrice\<close> and \<^verbatim>\<open>images\<close> derived as in the catch branch), the placeholder
  slider images, and the default settings. The value depends neither on the error nor on
  the caller's pincode.
\<close>

theorem fetch_failure_placeholder:
  "fetchCategories PC (Inl e) = Inr PC
   \<and> fetchDishes PD (Inl e) userPincode = Inr (map placeholder_dish PD)
   \<and> fetchBanners PS (Inl e) = Inr PS
   \<and> fetchAppSettings (Inl e) = Inr default_settings"
  by (simp add: fetchCategories_def fetchDishes_def fetchBanners_def fetchAppSettings_def)

text \<open>
  C8. A successful read of \<^verbatim>\<open>categories\<close> with no child, and a successful read of
  \<^verbatim>\<open>banners\<close> in which no child has a non-empty \<^verbatim>\<open>imageUrl\<close>, return the same
  placeholder data as a failed read.
\<close>

theorem empty_read_placeholder:
  assumes "\<forall>(ck, b) \<in> set snap. raw_imageUrl b = None \<or> raw_imageUrl b = Some []"
  shows "fetchCategories PC (Inr []) = Inr PC
         \<and> fetchCategories PC (Inr []) = fetchCategories PC (Inl e)
         \<and> fetchBanners PS (Inr snap) = Inr PS
         \<and> fetchBanners PS (Inr snap) = fetchBanners PS (Inl e)"
  using banners_fold [OF assms]
  by (simp add: fetchCategories_def fetchBanners_def forEach_def)

theorem empty_read_placeholder_witness:
  "raw_imageUrl banner_without_image = None
   \<and> fetchCategories [[(''id'', JStr ''c0'')]] (Inr []) = Inr [[(''id'', JStr ''c0'')]]
   \<and> fetchBanners [\<lparr>downloadURL = ''https://example.org/b.png'', title = None\<rparr>]
        (Inr [(''b1'', banner_without_image)])
       = fetchBanners [\<lparr>downloadURL = ''https://example.org/b.png'', title = None\<rparr>]
           (Inl (BackendError ''offline''))"
proof -
  have h: "\<forall>(ck, b) \<in> set [(''b1'', banner_without_image)]. raw_imageUrl b = None \<or> raw_imageUrl b = Some []"
    by (simp add: banner_without_image_def)
  have n: "raw_imageUrl banner_without_image = None"
    by (simp add: banner_without_image_def)
  from empty_read_placeholder [OF h] n show ?thesis by blast
qed

section \<open>The order stream\<close>

lemma on_child_dpCache: "dpCache (fold (on_child M uid) snap st) = dpCache st"
  by (induction snap arbitrary: st) (auto simp: on_child_def Let_def split: option.splits)

lemma on_child_userOrders:
  "userOrders (fold (on_child M uid) snap st) =
     userOrders st @ map (\<lambda>(ck, val). order_of M ck val) (filter (\<lambda>(ck, val). userId val = uid) snap)"
  by (induction snap arbitrary: st) (auto simp: on_child_def Let_def split: option.splits)

lemma on_child_dpPromises:
  "dpCache st = Map.empty \<Longrightarrow>
   dpPromises (fold (on_child M uid) snap st) =
     dpPromises st @
     concat (map (\<lambda>(ck, val).
               if userId val = uid then
                 (case dboyId val of
                    None \<Rightarrow> []
                  | Some d \<Rightarrow> if customerStatus (order_of M ck val) = ''On Way'' \<and> d \<noteq> [] then [d] else [])
               else []) snap)"
  by (induction snap arbitrary: st) (auto simp: on_child_def Let_def order_of_def split: option.splits)

lemma set_insert_by: "set (insert_by cmp a bs) = insert a (set bs)"
  by (induction bs) auto

lemma set_js_sort: "set (js_sort cmp xs) = set xs"
  by (induction xs) (auto simp: js_sort_def set_insert_by)

lemma mset_insert_by: "mset (insert_by cmp a bs) = add_mset a (mset bs)"
  by (induction bs) auto

lemma mset_js_sort: "mset (js_sort cmp xs) = mset xs"
  by (induction xs) (auto simp: js_sort_def mset_insert_by)

lemma newest_first_insert:
  "sorted_wrt (\<lambda>a b. timestamp b \<le> timestamp a) bs \<Longrightarrow>
   sorted_wrt (\<lambda>a b. timestamp b \<le> timestamp a) (insert_by (\<lambda>a b. timestamp b - timestamp a) x bs)"
  by (induction bs) (auto simp: set_insert_by)

lemma newest_first_js_sort:
  "sorted_wrt (\<lambda>a b. timestamp b \<le> timestamp a) (js_sort (\<lambda>a b. timestamp b - timestamp a) xs)"
  by (induction xs) (auto simp: js_sort_def newest_first_insert)

text \<open>
  C3. The list passed to the callback is in descending order of \<^verbatim>\<open>timestamp\<close>:
  of any two orders in it, the earlier one has the greater or an equal timestamp.
\<close>

theorem listenForUserOrders_newest_first:
  "sorted_wrt (\<lambda>a b. timestamp b \<le> timestamp a) (listenForUserOrders M SIM dp_get delay uid snap)"
  by (simp add: listenForUserOrders_def Let_def newest_first_js_sort)

lemma with_driver_fields:
  "status (with_driver c ord) = status ord" "customerStatus (with_driver c ord) = customerStatus ord"
  by (auto simp: with_driver_def split: option.splits)

lemma visit_userOrders:
  "userOrders (visit_children M uid snap) =
     map (\<lambda>(ck, val). order_of M ck val) (filter (\<lambda>(ck, val). userId val = uid) snap)"
  by (simp add: visit_children_def forEach_def on_child_userOrders)

lemma visit_dpCache: "dpCache (visit_children M uid snap) = Map.empty"
  by (simp add: visit_children_def forEach_def on_child_dpCache)

lemma visit_dpPromises:
  "dpPromises (visit_children M uid snap) =
     concat (map (\<lambda>(ck, val).
               if userId val = uid then
                 (case dboyId val of
                    None \<Rightarrow> []
                  | Some d \<Rightarrow> if customerStatus (order_of M ck val) = ''On Way'' \<and> d \<noteq> [] then [d] else [])
               else []) snap)"
  by (simp add: visit_children_def forEach_def on_child_dpPromises)

lemma delivered_iff:
  "ord \<in> set (listenForUserOrders M SIM dp_get delay uid snap) \<longleftrightarrow>
     (\<exists>ck val. (ck, val) \<in> set snap \<and> userId val = uid \<and>
        ord = with_driver (await_all SIM dp_get delay (dpPromises (visit_children M uid snap)) Map.empty)
                (order_of M ck val))"
  by (force simp: listenForUserOrders_def Let_def set_js_sort visit_userOrders visit_dpCache)

text \<open>
  C5. An order passed to the callback whose stored status code has no entry in the
  status table has the customer status \<^verbatim>\<open>Processing\<close>.
\<close>

theorem listenForUserOrders_unmapped_status:
  assumes "ord \<in> set (listenForUserOrders M SIM dp_get delay uid snap)" and "M (status ord) = None"
  shows "customerStatus ord = ''Processing''"
proof -
  from assms(1) obtain ck val c where "ord = with_driver c (order_of M ck val)"
    unfolding delivered_iff by blast
  with assms(2) show ?thesis
    by (simp add: with_driver_fields) (simp add: order_of_def js_or_str_def)
qed

theorem listenForUserOrders_unmapped_status_witness:
  "order_of example_status_map ''o3'' order_c
     \<in> set (listenForUserOrders example_status_map example_simulated_driver
               (\<lambda>i p. Inr None) (\<lambda>i. 0) ''u1'' [(''o1'', order_a), (''o3'', order_c)])
   \<and> status (order_of example_status_map ''o3'' order_c) = ''delivered''
   \<and> example_status_map ''delivered'' = None
   \<and> customerStatus (order_of example_status_map ''o3'' order_c) = ''Processing''"
proof -
  have m: "order_of example_status_map ''o3'' order_c
     \<in> set (listenForUserOrders example_status_map example_simulated_driver
               (\<lambda>i p. Inr None) (\<lambda>i. 0) ''u1'' [(''o1'', order_a), (''o3'', order_c)])"
    by code_simp
  have st: "status (order_of example_status_map ''o3'' order_c) = ''delivered''"
    by (simp add: order_of_def order_c_def)
  have un: "example_status_map ''delivered'' = None"
    by (simp add: example_status_map_def)
  from listenForUserOrders_unmapped_status [OF m] st un m show ?thesis by simp
qed

lemma set_settle_order: "set (settle_order delay n) = {0..<n}"
  by (simp add: settle_order_def)

lemma cache_after_writes:
  assumes "\<exists>i \<in> set sched. ids ! i = d"
      and "\<forall>i \<in> set sched. ids ! i = d \<longrightarrow> f i = v"
  shows "fold (\<lambda>i c. c(ids ! i \<mapsto> f i)) sched cache d = Some v"
  using assms
proof (induction sched rule: rev_induct)
  case Nil
  then show ?case by simp
next
  case (snoc i sched)
  show ?case
  proof (cases "ids ! i = d")
    case True
    with snoc.prems(2) show ?thesis by simp
  next
    case False
    with snoc.prems have "\<exists>j \<in> set sched. ids ! j = d" "\<forall>j \<in> set sched. ids ! j = d \<longrightarrow> f j = v"
      by auto
    from snoc.IH [OF this] False show ?thesis by simp
  qed
qed

lemma await_all_failed:
  assumes "d \<in> set ids"
      and "\<forall>i. driver_of SIM (dp_get i (''delivery_partners/'' @ d)) = SIM"
  shows "await_all SIM dp_get delay ids cache d = Some SIM"
proof -
  from assms(1) obtain i where "i < length ids" "ids ! i = d"
    by (auto simp: in_set_conv_nth)
  then have "\<exists>i \<in> set (settle_order delay (length ids)). ids ! i = d"
    by (auto simp: set_settle_order)
  moreover have "\<forall>i \<in> set (settle_order delay (length ids)). ids ! i = d \<longrightarrow>
      driver_of SIM (dp_get i (''delivery_partners/'' @ ids ! i)) = SIM"
    using assms(2) by auto
  ultimately have "fold (\<lambda>i c. c(ids ! i \<mapsto> driver_of SIM (dp_get i (''delivery_partners/'' @ ids ! i))))
      (settle_order delay (length ids)) cache d = Some SIM"
    using cache_after_writes
      [where f = "\<lambda>i. driver_of SIM (dp_get i (''delivery_partners/'' @ ids ! i))" and v = SIM
         and sched = "settle_order delay (length ids)" and ids = ids and d = d and cache = cache]
    by blast
  then show ?thesis by (simp add: await_all_def)
qed

lemma lookup_issued:
  assumes "(ck, val) \<in> set snap" and "userId val = uid" and "dboyId val = Some d" and "d \<noteq> []"
      and "customerStatus (order_of M ck val) = ''On Way''"
  shows "d \<in> set (dpPromises (visit_children M uid snap))"
proof -
  have "d \<in> set (case (ck, val) of (ck, val) \<Rightarrow>
               if userId val = uid then
                 (case dboyId val of
                    None \<Rightarrow> []
                  | Some d \<Rightarrow> if customerStatus (order_of M ck val) = ''On Way'' \<and> d \<noteq> [] then [d] else [])
               else [])"
    using assms(2-5) by simp
  with assms(1) show ?thesis
    unfolding visit_dpPromises set_concat set_map by blast
qed

text \<open>
  When every \<^verbatim>\<open>get\<close> of the batch for a driver's path throws or returns no data, an
  \<^verbatim>\<open>On Way\<close> order of the current user carried by that driver is passed to the
  callback with \<open>SIMULATED_DRIVER\<close> as its \<^verbatim>\<open>driverDetails\<close>.
\<close>

lemma all_lookups_fail_simulated:
  assumes "(ck, val) \<in> set snap" and "userId val = uid"
      and "M (status val) = Some ''On Way''" and "dboyId val = Some d" and "d \<noteq> []"
      and "\<forall>i p. dp_get i (''delivery_partners/'' @ d) \<noteq> Inr (Some p)"
  shows "(order_of M ck val)\<lparr>driverDetails := Some SIM\<rparr>
           \<in> set (listenForUserOrders M SIM dp_get delay uid snap)"
proof -
  have cs: "customerStatus (order_of M ck val) = ''On Way''"
    using assms(3) by (simp add: order_of_def js_or_str_def)
  have "d \<in> set (dpPromises (visit_children M uid snap))"
    using assms(1,2,4,5) cs by (rule lookup_issued)
  moreover have "\<forall>i. driver_of SIM (dp_get i (''delivery_partners/'' @ d)) = SIM"
  proof
    fix i
    from assms(6) have "\<forall>p. dp_get i (''delivery_partners/'' @ d) \<noteq> Inr (Some p)" ..
    then show "driver_of SIM (dp_get i (''delivery_partners/'' @ d)) = SIM"
      by (simp add: driver_of_def split: sum.splits option.splits)
  qed
  ultimately have "await_all SIM dp_get delay (dpPromises (visit_children M uid snap)) Map.empty d = Some SIM"
    by (rule await_all_failed)
  then have "with_driver (await_all SIM dp_get delay (dpPromises (visit_children M uid snap)) Map.empty)
               (order_of M ck val) = (order_of M ck val)\<lparr>driverDetails := Some SIM\<rparr>"
    using cs assms(4,5) by (simp add: with_driver_def order_of_def Let_def)
  then show ?thesis
    unfolding delivered_iff using assms(1,2) by metis
qed

text \<open>
  C1. The claim asks for at most one \<^verbatim>\<open>get\<close> per distinct driver id in a batch. The
  test \<^verbatim>\<open>!dpCache[order.dboyId]\<close> is meant to ensure it, but \<^verbatim>\<open>dpCache\<close> is written
  only by the promise callbacks, after all children have been visited (lemma
  \<open>visit_dpPromises\<close>: one call for every \<^verbatim>\<open>On Way\<close> order with a driver id). Two
  orders of the same user carried by the same driver \<^verbatim>\<open>d1\<close> issue two calls for the
  same path.
\<close>

theorem listenForUserOrders_duplicate_lookup:
  "dboyId order_a = Some ''d1'' \<and> dboyId order_b = Some ''d1''
   \<and> driver_lookups example_status_map ''u1'' [(''o1'', order_a), (''o2'', order_b)]
       = [''delivery_partners/d1'', ''delivery_partners/d1'']"
  by code_simp

text \<open>
  C7. The claim asks that an \<^verbatim>\<open>On Way\<close> order whose driver lookup throws or returns no
  data be delivered with \<open>SIMULATED_DRIVER\<close>. Because of the duplicate calls of C1, the
  entry of \<^verbatim>\<open>dpCache\<close> for a driver is the one written by the call that settles last.
  Here two orders are carried by driver \<^verbatim>\<open>d1\<close>; the call issued for the first order
  throws, the call issued for the second finds the partner and settles after it. Both
  orders are delivered, the first one too with the partner's details and not with
  \<open>SIMULATED_DRIVER\<close>.
\<close>

theorem listenForUserOrders_failed_lookup_overwritten:
  "driver_lookups example_status_map ''u1'' [(''o1'', order_a), (''o2'', order_b)]
     = [''delivery_partners/d1'', ''delivery_partners/d1'']
   \<and> listenForUserOrders example_status_map example_simulated_driver
       (\<lambda>i path. if i = 0 then Inl (BackendError ''offline'') else Inr (Some example_partner))
       (\<lambda>i. 0) ''u1'' [(''o1'', order_a), (''o2'', order_b)]
     = [(order_of example_status_map ''o2'' order_b)
          \<lparr>driverDetails := Some \<lparr>driver_name = ''Ravi'', driver_mobile = ''9876543210'',
             driver_imageUrl = ''https://cdn-icons-png.flaticon.com/512/4140/4140037.png''\<rparr>\<rparr>,
        (order_of example_status_map ''o1'' order_a)
          \<lparr>driverDetails := Some \<lparr>driver_name = ''Ravi'', driver_mobile = ''9876543210'',
             driver_imageUrl = ''https://cdn-icons-png.flaticon.com/512/4140/4140037.png''\<rparr>\<rparr>]
   \<and> \<lparr>driver_name = ''Ravi'', driver_mobile = ''9876543210'',
       driver_imageUrl = ''https://cdn-icons-png.flaticon.com/512/4140/4140037.png''\<rparr>
     \<noteq> example_simulated_driver"
  by code_simp

end
